theory Spec2Isabelle
  imports Complex_Main
begin

section \<open>Event model\<close>

text \<open>
  A heartbeat is a Python dict. The key \<open>time\<close> is always read, every other key is
  read behind \<open>"k" in heartbeat\<close> or \<open>heartbeat.get("k")\<close>: such a key is an
  \<open>option\<close>, \<open>None\<close> when the dict lacks it. The dict key \<open>type\<close> is the field
  \<open>etype\<close>. Epoch seconds (Python floats) are modelled as exact reals, line counts as
  unbounded integers.

  The type parameter \<open>'v\<close> is what the dict holds for the two line-count keys. The
  durations, the activity mappings and the session boundaries never read these keys,
  so everything about them is defined for any \<open>'v\<close>. Two instances are used.
  In a \<open>heartbeat\<close> a line-count key is absent or holds an integer: \<open>'v\<close> is
  \<open>int option\<close>, and on such heartbeats \<open>get_coding_durations\<close> never raises. In a
  \<open>py_heartbeat\<close> (section \<open>Line counts as the API sends them\<close>) the key can also be
  present with the value \<open>null\<close>, as the API sends it for an event without line counts;
  there the function is modelled with its \<open>TypeError\<close>.
\<close>

record 'v heartbeat_of =
  time :: real
  entity :: "string option"
  etype :: "string option"
  project :: "string option"
  language :: "string option"
  category :: "string option"
  line_additions :: 'v
  line_deletions :: 'v

type_synonym heartbeat = "int option heartbeat_of"

text \<open>The value stored under a file key: \<open>{"duration": ..., "type": ...}\<close>.\<close>

record file_entry =
  file_duration :: real
  file_type :: string

record activity_maps =
  files :: "string \<rightharpoonup> file_entry"
  projects :: "string \<rightharpoonup> real"
  languages :: "string \<rightharpoonup> real"
  categories :: "string \<rightharpoonup> real"

text \<open>
  The dict \<open>line_changes\<close> of a session; \<open>'c\<close> is what it holds under each key: an
  integer when the line counts of the heartbeats are integers, an integer or \<open>None\<close>
  when they can be \<open>null\<close>.
\<close>

record 'c line_counts =
  additions :: 'c
  deletions :: 'c


record 'c session_of =
  start_time :: real
  end_time :: real
  duration :: real
  activities :: activity_maps
  line_changes :: "'c line_counts"

type_synonym session = "int session_of"

section \<open>Session Reconstructor\<close>

text \<open>
  \<open>os.path.basename\<close> of the POSIX path module: everything after the last slash.
\<close>

definition basename :: "string \<Rightarrow> string" where
  "basename p = rev (takeWhile (\<lambda>c. c \<noteq> CHR ''/'') (rev p))"

text \<open>\<open>_normalize_file_path\<close>: the empty path is returned as it is.\<close>

definition normalize_file_path :: "string \<Rightarrow> string" where
  "normalize_file_path file_path =
     (if file_path = [] then file_path else basename file_path)"

text \<open>
  \<open>if k not in m: m[k] = 0\<close> followed by \<open>m[k] += d\<close>, for the project, language and
  category mappings.
\<close>

definition add_duration :: "(string \<rightharpoonup> real) \<Rightarrow> string \<Rightarrow> real \<Rightarrow> (string \<rightharpoonup> real)" where
  "add_duration m k d =
     (case m k of None \<Rightarrow> m(k \<mapsto> 0 + d) | Some v \<Rightarrow> m(k \<mapsto> v + d))"

text \<open>
  The same for the file mapping, whose fresh entry also records the heartbeat's type.
\<close>

definition add_file_duration ::
  "(string \<rightharpoonup> file_entry) \<Rightarrow> string \<Rightarrow> string \<Rightarrow> real \<Rightarrow> (string \<rightharpoonup> file_entry)" where
  "add_file_duration m k ty d =
     (case m k of
        None \<Rightarrow> m(k \<mapsto> \<lparr>file_duration = 0 + d, file_type = ty\<rparr>)
      | Some e \<Rightarrow> m(k \<mapsto> e\<lparr>file_duration := file_duration e + d\<rparr>))"

text \<open>\<open>_update_activity_duration(session, heartbeat, duration)\<close>.\<close>

definition update_activity_duration ::
  "'c session_of \<Rightarrow> 'v heartbeat_of \<Rightarrow> real \<Rightarrow> 'c session_of" where
  "update_activity_duration s heartbeat d =
     (let a = activities s;
          a1 = (case entity heartbeat of
                  None \<Rightarrow> a
                | Some p \<Rightarrow>
                    a\<lparr>files := add_file_duration (files a) (normalize_file_path p)
                         (case etype heartbeat of None \<Rightarrow> ''unknown'' | Some t \<Rightarrow> t) d\<rparr>);
          a2 = (case project heartbeat of
                  None \<Rightarrow> a1
                | Some p \<Rightarrow> a1\<lparr>projects := add_duration (projects a1) p d\<rparr>);
          a3 = (case language heartbeat of
                  None \<Rightarrow> a2
                | Some l \<Rightarrow> a2\<lparr>languages := add_duration (languages a2) l d\<rparr>);
          a4 = (case category heartbeat of
                  None \<Rightarrow> a3
                | Some c \<Rightarrow> a3\<lparr>categories := add_duration (categories a3) c d\<rparr>)
      in s\<lparr>activities := a4\<rparr>)"

text \<open>The dict literal that starts a session at time \<open>t\<close>.\<close>

definition new_session :: "real \<Rightarrow> int \<Rightarrow> int \<Rightarrow> session" where
  "new_session t adds dels =
     \<lparr>start_time = t, end_time = t, duration = 0,
      activities = \<lparr>files = Map.empty, projects = Map.empty,
                    languages = Map.empty, categories = Map.empty\<rparr>,
      line_changes = \<lparr>additions = adds, deletions = dels\<rparr>\<rparr>"

text \<open>
  The step that precedes every \<open>durations.append\<close>: the time left between the last
  heartbeat and the session's end is charged to that heartbeat, when positive.
\<close>

definition close_session :: "'c session_of \<Rightarrow> 'v heartbeat_of \<Rightarrow> 'c session_of" where
  "close_session current_session prev =
     (let final_duration = end_time current_session - time prev
      in if final_duration > 0
         then update_activity_duration current_session prev final_duration
         else current_session)"

text \<open>\<open>if current.get("line_additions"): ... += ...\<close>: a missing key and 0 are falsy.\<close>

definition add_line_additions :: "heartbeat \<Rightarrow> session \<Rightarrow> session" where
  "add_line_additions current s =
     (case line_additions current of
        None \<Rightarrow> s
      | Some n \<Rightarrow>
          if n \<noteq> 0
          then s\<lparr>line_changes := (line_changes s)\<lparr>additions := additions (line_changes s) + n\<rparr>\<rparr>
          else s)"

definition add_line_deletions :: "heartbeat \<Rightarrow> session \<Rightarrow> session" where
  "add_line_deletions current s =
     (case line_deletions current of
        None \<Rightarrow> s
      | Some n \<Rightarrow>
          if n \<noteq> 0
          then s\<lparr>line_changes := (line_changes s)\<lparr>deletions := deletions (line_changes s) + n\<rparr>\<rparr>
          else s)"

text \<open>
  One iteration of the loop of \<open>get_coding_durations\<close>, for \<open>prev = data[i - 1]\<close> and
  \<open>current = data[i]\<close>. The state is the current session and the list \<open>durations\<close>;
  \<open>fmt\<close> is what is applied to a session when it is appended.
\<close>

definition loop_body ::
  "(session \<Rightarrow> 'f) \<Rightarrow> int \<Rightarrow> heartbeat \<Rightarrow> heartbeat \<Rightarrow> session \<times> 'f list \<Rightarrow> session \<times> 'f list" where
  "loop_body fmt merge_threshold prev current st =
     (let current_session = fst st; durations = snd st;
          time_diff = time current - time prev
      in if time_diff \<le> of_int merge_threshold
         then
           (let s1 = current_session\<lparr>end_time := time current,
                                     duration := time current - start_time current_session\<rparr>;
                s2 = (if time_diff > 0 then update_activity_duration s1 prev time_diff else s1)
            in (add_line_deletions current (add_line_additions current s2), durations))
         else
           (let closed = close_session current_session prev;
                fresh = new_session (time current)
                          (case line_additions current of None \<Rightarrow> 0 | Some n \<Rightarrow> n)
                          (case line_deletions current of None \<Rightarrow> 0 | Some n \<Rightarrow> n)
            in (update_activity_duration fresh current 0, durations @ [fmt closed])))"

text \<open>\<open>for i in range(1, len(data))\<close>: the heartbeats after the first, each with its
  predecessor.\<close>

fun merge_loop ::
  "(session \<Rightarrow> 'f) \<Rightarrow> int \<Rightarrow> heartbeat \<Rightarrow> heartbeat list \<Rightarrow> session \<times> 'f list \<Rightarrow> session \<times> 'f list" where
  "merge_loop fmt merge_threshold prev [] st = st"
| "merge_loop fmt merge_threshold prev (current # rest) st =
     merge_loop fmt merge_threshold current rest (loop_body fmt merge_threshold prev current st)"

text \<open>
  \<open>get_coding_durations\<close> on the fetched heartbeat list, with the formatting of a
  finished session as the parameter \<open>fmt\<close>.
\<close>

definition coding_durations ::
  "(session \<Rightarrow> 'f) \<Rightarrow> int \<Rightarrow> heartbeat list \<Rightarrow> 'f list" where
  "coding_durations fmt merge_threshold heartbeats =
     (let data = sort_key time heartbeats
      in case data of
           [] \<Rightarrow> []
         | d0 # rest \<Rightarrow>
             (let first_session = update_activity_duration (new_session (time d0) 0 0) d0 0;
                  st = merge_loop fmt merge_threshold d0 rest (first_session, []);
                  last_session = close_session (fst st) (last data)
              in snd st @ [fmt last_session]))"

text \<open>The sessions as they are handed to \<open>_format_duration\<close>, in seconds.\<close>

definition raw_sessions :: "int \<Rightarrow> heartbeat list \<Rightarrow> session list" where
  "raw_sessions merge_threshold heartbeats = coding_durations (\<lambda>s. s) merge_threshold heartbeats"

subsection \<open>Formatting\<close>

text \<open>Python 3 \<open>round\<close>: to the nearest integer, a tie to the even one.\<close>

definition py_round :: "real \<Rightarrow> int" where
  "py_round x =
     (let f = \<lfloor>x\<rfloor>; r = x - of_int f
      in if r < 1 / 2 then f
         else if r > 1 / 2 then f + 1
         else if even f then f else f + 1)"

text \<open>\<open>round(x, 2)\<close>, on exact reals.\<close>

definition round2 :: "real \<Rightarrow> real" where
  "round2 x = of_int (py_round (x * 100)) / 100"

record formatted_file =
  duration_minutes :: real
  ftype :: string

record 'c formatted_session_of =
  fmt_start_time :: string
  fmt_end_time :: string
  fmt_duration_seconds :: int
  fmt_duration_minutes :: real
  fmt_files :: "string \<rightharpoonup> formatted_file"
  fmt_projects :: "string \<rightharpoonup> real"
  fmt_languages :: "string \<rightharpoonup> real"
  fmt_categories :: "string \<rightharpoonup> real"
  fmt_line_changes :: "'c line_counts"

type_synonym formatted_session = "int formatted_session_of"

text \<open>
  \<open>_format_duration\<close>. The rendering of a timestamp in local time
  (\<open>fromtimestamp(...).strftime(...)\<close>) is the parameter \<open>strf\<close>.
\<close>

definition format_duration ::
  "(real \<Rightarrow> string) \<Rightarrow> 'c session_of \<Rightarrow> 'c formatted_session_of" where
  "format_duration strf s =
     \<lparr>fmt_start_time = strf (start_time s),
      fmt_end_time = strf (end_time s),
      fmt_duration_seconds = py_round (duration s),
      fmt_duration_minutes = round2 (duration s / 60),
      fmt_files = (\<lambda>k. case files (activities s) k of
                          None \<Rightarrow> None
                        | Some e \<Rightarrow> Some \<lparr>duration_minutes = round2 (file_duration e / 60),
                                          ftype = file_type e\<rparr>),
      fmt_projects = (\<lambda>k. map_option (\<lambda>d. round2 (d / 60)) (projects (activities s) k)),
      fmt_languages = (\<lambda>k. map_option (\<lambda>d. round2 (d / 60)) (languages (activities s) k)),
      fmt_categories = (\<lambda>k. map_option (\<lambda>d. round2 (d / 60)) (categories (activities s) k)),
      fmt_line_changes = line_changes s\<rparr>"

definition get_coding_durations ::
  "(real \<Rightarrow> string) \<Rightarrow> int \<Rightarrow> heartbeat list \<Rightarrow> formatted_session list" where
  "get_coding_durations strf merge_threshold heartbeats =
     coding_durations (format_duration strf) merge_threshold heartbeats"

section \<open>Python values and exceptions\<close>

text \<open>
  The aggregates fetched from the API and the persisted store are parsed JSON: dicts,
  lists, strings, numbers, booleans and \<open>None\<close>. A dict is the list of its items in
  insertion order, each key once. Numbers are exact reals.
\<close>

datatype json =
    JNull
  | JBool bool
  | JNum real
  | JStr string
  | JArr "json list"
  | JObj "(string \<times> json) list"

datatype pyerr =
    KeyError
  | TypeError
  | ValueError
  | AttributeError
  | ZeroDivisionError
  | UnboundLocalError
  | FileNotFoundError
  | JSONDecodeError
  | UnicodeDecodeError
  | OSError
  | RecursionError

definition bindE :: "pyerr + 'a \<Rightarrow> ('a \<Rightarrow> pyerr + 'b) \<Rightarrow> pyerr + 'b" where
  "bindE x f = (case x of Inl e \<Rightarrow> Inl e | Inr v \<Rightarrow> f v)"

text \<open>\<open>v[k]\<close> for a string \<open>k\<close>: only a dict can be subscripted with a string.\<close>

fun subscript :: "json \<Rightarrow> string \<Rightarrow> pyerr + json" where
  "subscript (JObj kvs) k = (case map_of kvs k of None \<Rightarrow> Inl KeyError | Some v \<Rightarrow> Inr v)"
| "subscript _ k = Inl TypeError"

text \<open>\<open>v[k1][k2]...\<close>\<close>

fun get_path :: "json \<Rightarrow> string list \<Rightarrow> pyerr + json" where
  "get_path v [] = Inr v"
| "get_path v (k # ks) = bindE (subscript v k) (\<lambda>w. get_path w ks)"

fun substring_of :: "string \<Rightarrow> string \<Rightarrow> bool" where
  "substring_of k [] = (k = [])"
| "substring_of k (c # cs) = (take (length k) (c # cs) = k \<or> substring_of k cs)"

text \<open>
  \<open>k in v\<close> for a string \<open>k\<close>: a key of a dict, an element of a list, a substring of a
  string; the other values are not containers.
\<close>

fun contains :: "string \<Rightarrow> json \<Rightarrow> pyerr + bool" where
  "contains k (JObj kvs) = Inr (k \<in> set (map fst kvs))"
| "contains k (JArr xs) = Inr (JStr k \<in> set xs)"
| "contains k (JStr s) = Inr (substring_of k s)"
| "contains k _ = Inl TypeError"

text \<open>\<open>v.get(k, d)\<close>: a method of dicts only.\<close>

fun py_get :: "json \<Rightarrow> string \<Rightarrow> json \<Rightarrow> pyerr + json" where
  "py_get (JObj kvs) k d = Inr (case map_of kvs k of None \<Rightarrow> d | Some v \<Rightarrow> v)"
| "py_get _ k d = Inl AttributeError"

text \<open>\<open>for x in v\<close>: the elements of a list, the keys of a dict, the characters of a
  string.\<close>

fun iterate :: "json \<Rightarrow> pyerr + json list" where
  "iterate (JArr xs) = Inr xs"
| "iterate (JObj kvs) = Inr (map (\<lambda>kv. JStr (fst kv)) kvs)"
| "iterate (JStr s) = Inr (map (\<lambda>c. JStr [c]) s)"
| "iterate _ = Inl TypeError"

fun truthy :: "json \<Rightarrow> bool" where
  "truthy JNull = False"
| "truthy (JBool b) = b"
| "truthy (JNum x) = (x \<noteq> 0)"
| "truthy (JStr s) = (s \<noteq> [])"
| "truthy (JArr xs) = (xs \<noteq> [])"
| "truthy (JObj kvs) = (kvs \<noteq> [])"

text \<open>A number as an operand of \<open>+\<close> with a number (\<open>sum\<close>) and of the format \<open>.2f\<close>.\<close>

fun py_num :: "json \<Rightarrow> pyerr + real" where
  "py_num (JNum x) = Inr x"
| "py_num (JBool b) = Inr (if b then 1 else 0)"
| "py_num _ = Inl TypeError"

text \<open>\<open>f"{v:.2f}"\<close>: a string has no format \<open>f\<close> (ValueError), the others but numbers
  no format at all (TypeError).\<close>

fun format_2f :: "json \<Rightarrow> pyerr + real" where
  "format_2f (JNum x) = Inr x"
| "format_2f (JBool b) = Inr (if b then 1 else 0)"
| "format_2f (JStr s) = Inl ValueError"
| "format_2f _ = Inl TypeError"

fun map_err :: "('a \<Rightarrow> pyerr + 'b) \<Rightarrow> 'a list \<Rightarrow> pyerr + 'b list" where
  "map_err f [] = Inr []"
| "map_err f (x # xs) = bindE (f x) (\<lambda>y. bindE (map_err f xs) (\<lambda>ys. Inr (y # ys)))"

text \<open>\<open>d[k] = v\<close> on the items of a dict: in place when the key is there, else at the end.\<close>

fun dict_set :: "(string \<times> json) list \<Rightarrow> string \<Rightarrow> json \<Rightarrow> (string \<times> json) list" where
  "dict_set [] k v = [(k, v)]"
| "dict_set ((k', v') # kvs) k v =
     (if k' = k then (k, v) # kvs else (k', v') # dict_set kvs k v)"

text \<open>
  What the standard library and the clock give, taken as parameters: today's date
  (\<open>strftime("%Y-%m-%d")\<close>), today's weekday name (\<open>strftime("%A")\<close>), today's ISO week
  number, the weekday name of an ISO date string (\<open>datetime.fromisoformat(s).strftime("%A")\<close>)
  and the ISO week number of a date string (\<open>datetime.strptime(s, "%Y-%m-%d").isocalendar()[1]\<close>),
  both \<open>None\<close> where Python raises ValueError, \<open>float(s)\<close> of a string likewise,
  \<open>sorted(records, key=lambda x: x["date"], reverse=True)\<close>,
  \<open>sorted(days, key=lambda x: x["date"])\<close> (\<open>None\<close> where it raises, which is a KeyError
  or a TypeError), and the text under which \<open>json.dump\<close> writes a dict key that is a
  number, a boolean or \<open>None\<close>.
\<close>

record env =
  today_str :: string
  today_weekday :: string
  current_week :: nat
  weekday_name :: "string \<Rightarrow> string option"
  week_number :: "string \<Rightarrow> nat option"
  float_of_string :: "string \<Rightarrow> real option"
  sorted_by_date_desc :: "json list \<Rightarrow> pyerr + json list"
  sorted_by_date :: "json list \<Rightarrow> json list option"
  scalar_key_text :: "json \<Rightarrow> string"

text \<open>\<open>float(v)\<close>\<close>

fun py_float :: "env \<Rightarrow> json \<Rightarrow> pyerr + real" where
  "py_float E (JNum x) = Inr x"
| "py_float E (JBool b) = Inr (if b then 1 else 0)"
| "py_float E (JStr s) = (case float_of_string E s of None \<Rightarrow> Inl ValueError | Some x \<Rightarrow> Inr x)"
| "py_float E _ = Inl TypeError"

text \<open>\<open>datetime.fromisoformat(v).strftime("%A")\<close>: the argument must be a string.\<close>

fun iso_weekday :: "env \<Rightarrow> json \<Rightarrow> pyerr + string" where
  "iso_weekday E (JStr s) = (case weekday_name E s of None \<Rightarrow> Inl ValueError | Some w \<Rightarrow> Inr w)"
| "iso_weekday E _ = Inl TypeError"

text \<open>\<open>get_week_number\<close>\<close>

fun get_week_number :: "env \<Rightarrow> json \<Rightarrow> pyerr + nat" where
  "get_week_number E (JStr s) = (case week_number E s of None \<Rightarrow> Inl ValueError | Some w \<Rightarrow> Inr w)"
| "get_week_number E _ = Inl TypeError"

text \<open>A value used as a dict key: lists and dicts are unhashable.\<close>

fun dict_key :: "env \<Rightarrow> json \<Rightarrow> pyerr + string" where
  "dict_key E (JStr s) = Inr s"
| "dict_key E (JArr xs) = Inl TypeError"
| "dict_key E (JObj kvs) = Inl TypeError"
| "dict_key E v = Inr (scalar_key_text E v)"

section \<open>Line counts as the API sends them\<close>

text \<open>
  What a fetched heartbeat holds under \<open>line_additions\<close> or \<open>line_deletions\<close>: the key is
  absent, or present with \<open>null\<close> (an event for which the editor reported no line
  counts), or present with an integer. \<open>get_coding_durations\<close> tells the three apart:
  \<open>current.get(k)\<close> is falsy for an absent key, for \<open>None\<close> and for 0, while
  \<open>current.get(k, 0)\<close> is 0 for an absent key only and \<open>None\<close> for a \<open>null\<close>. So the
  \<open>line_changes\<close> of a session hold an integer or \<open>None\<close>.
\<close>

datatype line_value =
    Absent
  | Null
  | Lines int

type_synonym py_heartbeat = "line_value heartbeat_of"

type_synonym py_session = "int option session_of"

text \<open>\<open>current.get(k, 0)\<close>, the value a session started after a gap begins with.\<close>

fun seed_count :: "line_value \<Rightarrow> int option" where
  "seed_count Absent = Some 0"
| "seed_count Null = None"
| "seed_count (Lines n) = Some n"

text \<open>
  \<open>if current.get(k): current_session["line_changes"][k'] += current[k]\<close>, on the count
  \<open>c\<close> of the session. Adding an integer to \<open>None\<close> raises \<open>TypeError\<close>.
\<close>

fun add_count :: "int option \<Rightarrow> line_value \<Rightarrow> pyerr + int option" where
  "add_count c Absent = Inr c"
| "add_count c Null = Inr c"
| "add_count c (Lines n) =
     (if n \<noteq> 0
      then (case c of None \<Rightarrow> Inl TypeError | Some m \<Rightarrow> Inr (Some (m + n)))
      else Inr c)"

definition py_add_line_additions :: "py_heartbeat \<Rightarrow> py_session \<Rightarrow> pyerr + py_session" where
  "py_add_line_additions current s =
     bindE (add_count (additions (line_changes s)) (line_additions current))
       (\<lambda>c. Inr (s\<lparr>line_changes := (line_changes s)\<lparr>additions := c\<rparr>\<rparr>))"

definition py_add_line_deletions :: "py_heartbeat \<Rightarrow> py_session \<Rightarrow> pyerr + py_session" where
  "py_add_line_deletions current s =
     bindE (add_count (deletions (line_changes s)) (line_deletions current))
       (\<lambda>c. Inr (s\<lparr>line_changes := (line_changes s)\<lparr>deletions := c\<rparr>\<rparr>))"

text \<open>The dict literal that starts a session at time \<open>t\<close>, with the given line counts.\<close>

definition py_new_session :: "real \<Rightarrow> int option \<Rightarrow> int option \<Rightarrow> py_session" where
  "py_new_session t adds dels =
     \<lparr>start_time = t, end_time = t, duration = 0,
      activities = \<lparr>files = Map.empty, projects = Map.empty,
                    languages = Map.empty, categories = Map.empty\<rparr>,
      line_changes = \<lparr>additions = adds, deletions = dels\<rparr>\<rparr>"

text \<open>
  One iteration of the loop, as \<open>loop_body\<close>, with the exception of the two \<open>+=\<close>: it
  leaves the function, and the sessions appended so far are lost with it.
\<close>

definition py_loop_body ::
  "(py_session \<Rightarrow> 'f) \<Rightarrow> int \<Rightarrow> py_heartbeat \<Rightarrow> py_heartbeat \<Rightarrow> py_session \<times> 'f list
     \<Rightarrow> pyerr + py_session \<times> 'f list" where
  "py_loop_body fmt merge_threshold prev current st =
     (let current_session = fst st; durations = snd st;
          time_diff = time current - time prev
      in if time_diff \<le> of_int merge_threshold
         then
           (let s1 = current_session\<lparr>end_time := time current,
                                     duration := time current - start_time current_session\<rparr>;
                s2 = (if time_diff > 0 then update_activity_duration s1 prev time_diff else s1)
            in bindE (py_add_line_additions current s2)
                 (\<lambda>s3. bindE (py_add_line_deletions current s3)
                    (\<lambda>s4. Inr (s4, durations))))
         else
           (let closed = close_session current_session prev;
                fresh = py_new_session (time current)
                          (seed_count (line_additions current))
                          (seed_count (line_deletions current))
            in Inr (update_activity_duration fresh current 0, durations @ [fmt closed])))"

fun py_merge_loop ::
  "(py_session \<Rightarrow> 'f) \<Rightarrow> int \<Rightarrow> py_heartbeat \<Rightarrow> py_heartbeat list \<Rightarrow> py_session \<times> 'f list
     \<Rightarrow> pyerr + py_session \<times> 'f list" where
  "py_merge_loop fmt merge_threshold prev [] st = Inr st"
| "py_merge_loop fmt merge_threshold prev (current # rest) st =
     bindE (py_loop_body fmt merge_threshold prev current st)
       (py_merge_loop fmt merge_threshold current rest)"

text \<open>
  \<open>get_coding_durations\<close> on the fetched heartbeat list: the list of sessions, or the
  exception raised in the loop.
\<close>

definition py_coding_durations ::
  "(py_session \<Rightarrow> 'f) \<Rightarrow> int \<Rightarrow> py_heartbeat list \<Rightarrow> pyerr + 'f list" where
  "py_coding_durations fmt merge_threshold heartbeats =
     (let data = sort_key time heartbeats
      in case data of
           [] \<Rightarrow> Inr []
         | d0 # rest \<Rightarrow>
             (let first_session =
                    update_activity_duration (py_new_session (time d0) (Some 0) (Some 0)) d0 0
              in bindE (py_merge_loop fmt merge_threshold d0 rest (first_session, []))
                   (\<lambda>st. let last_session = close_session (fst st) (last data)
                         in Inr (snd st @ [fmt last_session]))))"

definition py_raw_sessions :: "int \<Rightarrow> py_heartbeat list \<Rightarrow> pyerr + py_session list" where
  "py_raw_sessions merge_threshold heartbeats =
     py_coding_durations (\<lambda>s. s) merge_threshold heartbeats"

definition py_get_coding_durations ::
  "(real \<Rightarrow> string) \<Rightarrow> int \<Rightarrow> py_heartbeat list \<Rightarrow> pyerr + int option formatted_session_of list" where
  "py_get_coding_durations strf merge_threshold heartbeats =
     py_coding_durations (format_duration strf) merge_threshold heartbeats"

text \<open>
  A heartbeat without \<open>null\<close> line counts as a fetched one, and the session it gives.
\<close>

definition sent_value :: "int option \<Rightarrow> line_value" where
  "sent_value v = (case v of None \<Rightarrow> Absent | Some n \<Rightarrow> Lines n)"

definition as_sent :: "heartbeat \<Rightarrow> py_heartbeat" where
  "as_sent h =
     \<lparr>time = time h, entity = entity h, etype = etype h, project = project h,
      language = language h, category = category h,
      line_additions = sent_value (line_additions h),
      line_deletions = sent_value (line_deletions h)\<rparr>"

definition as_py_session :: "session \<Rightarrow> py_session" where
  "as_py_session s =
     \<lparr>start_time = start_time s, end_time = end_time s, duration = duration s,
      activities = activities s,
      line_changes = \<lparr>additions = Some (additions (line_changes s)),
                      deletions = Some (deletions (line_changes s))\<rparr>\<rparr>"

text \<open>
  A fetched heartbeat with its line counts read as \<open>heartbeat\<close> reads them, \<open>null\<close> as
  an absent key; and the part of a session that does not depend on line counts.
\<close>

definition null_as_absent :: "line_value \<Rightarrow> int option" where
  "null_as_absent v = (case v of Lines n \<Rightarrow> Some n | _ \<Rightarrow> None)"

definition without_null :: "py_heartbeat \<Rightarrow> heartbeat" where
  "without_null h =
     \<lparr>time = time h, entity = entity h, etype = etype h, project = project h,
      language = language h, category = category h,
      line_additions = null_as_absent (line_additions h),
      line_deletions = null_as_absent (line_deletions h)\<rparr>"

definition timing :: "'c session_of \<Rightarrow> real \<times> real \<times> real \<times> activity_maps" where
  "timing s = (start_time s, end_time s, duration s, activities s)"

section \<open>Daily Stats Recorder\<close>

text \<open>
  The persisted file, by what \<open>stats_file.open("r")\<close> and \<open>json.load\<close> make of it: the
  file is absent; it cannot be opened for another reason (no permission, a directory);
  its bytes are not valid text in the platform's encoding; its text is not JSON; its
  JSON is nested deeper than the parser's recursion limit; or it holds a document.
\<close>

datatype file_state =
    Missing
  | Unreadable
  | Undecodable
  | Unparsable
  | TooDeep
  | Parsed json

text \<open>
  \<open>with stats_file.open("r") as f: json.load(f)\<close>. \<open>OSError\<close> stands for the errors of
  \<open>open\<close> other than \<open>FileNotFoundError\<close>. \<open>UnicodeDecodeError\<close> and \<open>JSONDecodeError\<close> are
  both subclasses of \<open>ValueError\<close>, and neither is a subclass of the other.
\<close>

fun read_json :: "file_state \<Rightarrow> pyerr + json" where
  "read_json Missing = Inl FileNotFoundError"
| "read_json Unreadable = Inl OSError"
| "read_json Undecodable = Inl UnicodeDecodeError"
| "read_json Unparsable = Inl JSONDecodeError"
| "read_json TooDeep = Inl RecursionError"
| "read_json (Parsed v) = Inr v"

text \<open>The dict comprehension over \<open>today_status["data"].get("categories", [])\<close>.\<close>

fun categories_dict ::
  "env \<Rightarrow> json list \<Rightarrow> (string \<times> json) list \<Rightarrow> pyerr + (string \<times> json) list" where
  "categories_dict E [] acc = Inr acc"
| "categories_dict E (cat # cats) acc =
     bindE (subscript cat ''name'') (\<lambda>name.
     bindE (subscript cat ''decimal'') (\<lambda>dec.
     bindE (dict_key E name) (\<lambda>k.
       categories_dict E cats (dict_set acc k dec))))"

text \<open>The dict comprehension over the languages, with its filter on \<open>"0 secs"\<close>.\<close>

fun languages_dict ::
  "env \<Rightarrow> json list \<Rightarrow> (string \<times> json) list \<Rightarrow> pyerr + (string \<times> json) list" where
  "languages_dict E [] acc = Inr acc"
| "languages_dict E (lang # langs) acc =
     bindE (subscript lang ''text'') (\<lambda>t.
       if t \<noteq> JStr ''0 secs''
       then
         bindE (subscript lang ''name'') (\<lambda>name.
         bindE (subscript lang ''text'') (\<lambda>hours.
         bindE (subscript lang ''percent'') (\<lambda>percent.
         bindE (dict_key E name) (\<lambda>k.
           languages_dict E langs
             (dict_set acc k (JObj [(''hours'', hours), (''percent'', percent)]))))))
       else languages_dict E langs acc)"

text \<open>The dict \<open>daily_stats\<close> of \<open>save_daily_stats\<close>.\<close>

definition build_daily_stats :: "env \<Rightarrow> json \<Rightarrow> pyerr + json" where
  "build_daily_stats E today_status =
     bindE (get_path today_status [''data'', ''grand_total'', ''decimal'']) (\<lambda>dec.
     bindE (py_float E dec) (\<lambda>total_hours.
     bindE (subscript today_status ''data'') (\<lambda>data.
     bindE (py_get data ''categories'' (JArr [])) (\<lambda>cats.
     bindE (iterate cats) (\<lambda>cat_items.
     bindE (categories_dict E cat_items []) (\<lambda>categories.
     bindE (py_get data ''languages'' (JArr [])) (\<lambda>langs.
     bindE (iterate langs) (\<lambda>lang_items.
     bindE (languages_dict E lang_items []) (\<lambda>languages.
       Inr (JObj [(''date'', JStr (today_str E)),
                  (''weekday'', JStr (today_weekday E)),
                  (''total_hours'', JNum total_hours),
                  (''categories'', JObj categories),
                  (''languages'', JObj languages)]))))))))))"

text \<open>
  \<open>next((i for i, record in enumerate(...) if record["date"] == today), None)\<close>: the
  records are read in order up to the first one of today.
\<close>

fun find_today :: "string \<Rightarrow> json list \<Rightarrow> nat \<Rightarrow> pyerr + nat option" where
  "find_today today [] i = Inr None"
| "find_today today (record # records) i =
     bindE (subscript record ''date'') (\<lambda>d.
       if d = JStr today then Inr (Some i) else find_today today records (Suc i))"

text \<open>Replace today's entry if it exists, or append the new entry.\<close>

definition upsert_list :: "string \<Rightarrow> json \<Rightarrow> json list \<Rightarrow> pyerr + json list" where
  "upsert_list today daily_stats records =
     bindE (find_today today records 0) (\<lambda>today_index.
       case today_index of
         Some i \<Rightarrow> Inr (records[i := daily_stats])
       | None \<Rightarrow> Inr (records @ [daily_stats]))"

text \<open>
  The same on the loaded document \<open>all_stats\<close>. When \<open>all_stats["daily_records"]\<close> is not
  a list, its elements are strings (the keys of a dict, the characters of a string),
  so that \<open>record["date"]\<close> raises TypeError at the first of them and no index is ever
  found; with no element at all, \<open>.append\<close> is missing.
\<close>

definition upsert_record :: "string \<Rightarrow> json \<Rightarrow> json \<Rightarrow> pyerr + json" where
  "upsert_record today daily_stats all_stats =
     bindE (subscript all_stats ''daily_records'') (\<lambda>recs.
       case recs of
         JArr records \<Rightarrow>
           bindE (upsert_list today daily_stats records) (\<lambda>records'.
             case all_stats of
               JObj kvs \<Rightarrow> Inr (JObj (dict_set kvs ''daily_records'' (JArr records')))
             | _ \<Rightarrow> Inl TypeError)
       | _ \<Rightarrow>
           bindE (iterate recs) (\<lambda>items.
           bindE (find_today today items 0) (\<lambda>today_index.
             case today_index of None \<Rightarrow> Inl AttributeError | Some i \<Rightarrow> Inl TypeError)))"

text \<open>
  \<open>try: all_stats = json.load(f) except (FileNotFoundError, json.JSONDecodeError):
  all_stats = {"daily_records": []}\<close>
\<close>

definition load_all_stats :: "file_state \<Rightarrow> pyerr + json" where
  "load_all_stats store =
     (case read_json store of
        Inl e \<Rightarrow>
          if e \<in> {FileNotFoundError, JSONDecodeError}
          then Inr (JObj [(''daily_records'', JArr [])])
          else Inl e
      | Inr v \<Rightarrow> Inr v)"

text \<open>
  \<open>save_daily_stats\<close>: the document written to the file, or the exception raised before
  anything is written. (The argument \<open>week_stats\<close> is not used by the source.)
\<close>

definition save_daily_stats :: "env \<Rightarrow> json \<Rightarrow> file_state \<Rightarrow> pyerr + json" where
  "save_daily_stats E today_status store =
     bindE (build_daily_stats E today_status) (\<lambda>daily_stats.
     bindE (load_all_stats store) (\<lambda>all_stats.
       upsert_record (today_str E) daily_stats all_stats))"

section \<open>Productivity Analyzer\<close>

text \<open>The lines written to the log, by what they report rather than by their wording.\<close>

datatype log_line =
    AnalysisHeader
  | TodayActivity string
  | TotalTime json
  | ActivityBreakdown
  | CategoryLine json json
  | NoActivityToday
  | WeekBreakdownHeader
  | DailyBreakdownHeader
  | DayLine string real
  | WeekAverage real
  | TodayVsWeek real
  | WeekError
  | HistoricalHeader string
  | HistoricalAverage string real
  | TodayVsHistorical string real
  | PreviousHeader string
  | PreviousLine json real
  | WeeklyAveragesHeader
  | WeekLine "nat option" real
  | LanguagesHeader
  | LanguageLine json json json
  | LanguageError
  | DayZeroLine string
  | DayError
  | DayData json
  | NoActivityLast7
  | NoDailyData

text \<open>
  The outcome of a piece of code: the lines it logged, and the exception that left it,
  if any.
\<close>

type_synonym outcome = "log_line list \<times> pyerr option"

definition skip :: outcome where
  "skip = ([], None)"

definition emit :: "log_line \<Rightarrow> outcome" where
  "emit l = ([l], None)"

definition throw :: "pyerr \<Rightarrow> outcome" where
  "throw e = ([], Some e)"

text \<open>One statement after another: the second runs when the first raised nothing.\<close>

definition seq :: "outcome \<Rightarrow> outcome \<Rightarrow> outcome" where
  "seq a b = (case snd a of None \<Rightarrow> (fst a @ fst b, snd b) | Some e \<Rightarrow> a)"

definition on_value :: "pyerr + 'a \<Rightarrow> ('a \<Rightarrow> outcome) \<Rightarrow> outcome" where
  "on_value x f = (case x of Inl e \<Rightarrow> throw e | Inr v \<Rightarrow> f v)"

text \<open>\<open>try: body except caught: log(handler)\<close>\<close>

definition try_except :: "pyerr set \<Rightarrow> log_line list \<Rightarrow> outcome \<Rightarrow> outcome" where
  "try_except caught handler body =
     (case snd body of
        None \<Rightarrow> body
      | Some e \<Rightarrow> if e \<in> caught then (fst body @ handler, None) else body)"

fun for_each :: "('a \<Rightarrow> outcome) \<Rightarrow> 'a list \<Rightarrow> outcome" where
  "for_each f [] = skip"
| "for_each f (x # xs) = seq (f x) (for_each f xs)"

subsection \<open>Today's summary\<close>

definition category_line :: "json \<Rightarrow> outcome" where
  "category_line cat =
     on_value (py_get cat ''name'' (JStr ''Unknown'')) (\<lambda>name.
     on_value (py_get cat ''decimal'' (JNum 0)) (\<lambda>dec.
       emit (CategoryLine name dec)))"

text \<open>
  The section and the variable \<open>today_total\<close> after it, \<open>None\<close> when it was never
  assigned.
\<close>

definition today_section :: "env \<Rightarrow> json \<Rightarrow> outcome \<times> json option" where
  "today_section E today_status =
     (case get_path today_status [''data'', ''grand_total'', ''decimal''] of
        Inl e \<Rightarrow> (try_except {KeyError, TypeError} [NoActivityToday] (throw e), None)
      | Inr today_total \<Rightarrow>
          (try_except {KeyError, TypeError} [NoActivityToday]
             (seq (emit (TodayActivity (today_str E)))
             (seq (emit (TotalTime today_total))
             (on_value (subscript today_status ''data'') (\<lambda>data.
              on_value (contains ''categories'' data) (\<lambda>has.
                if has
                then seq (emit ActivityBreakdown)
                       (on_value (subscript data ''categories'') (\<lambda>cats.
                        on_value (iterate cats) (for_each category_line)))
                else skip))))),
           Some today_total))"

subsection \<open>Current week breakdown\<close>

text \<open>The body of the loop over the days, with its own \<open>try ... except (KeyError,
  ValueError): continue\<close>.\<close>

definition day_line :: "env \<Rightarrow> json \<Rightarrow> outcome" where
  "day_line E day =
     try_except {KeyError, ValueError} []
       (on_value (get_path day [''range'', ''date'']) (\<lambda>d.
        on_value (iso_weekday E d) (\<lambda>date.
        on_value (get_path day [''grand_total'', ''decimal'']) (\<lambda>dec.
        on_value (py_float E dec) (\<lambda>hours.
          emit (DayLine date hours))))))"

text \<open>An element of the list comprehension \<open>daily_totals\<close>.\<close>

definition day_total :: "env \<Rightarrow> json \<Rightarrow> pyerr + real" where
  "day_total E day =
     bindE (get_path day [''grand_total'', ''decimal'']) (py_float E)"

text \<open>\<open>if today_total: log(float(today_total) / avg * 100)\<close>\<close>

definition versus_average ::
  "env \<Rightarrow> json option \<Rightarrow> real \<Rightarrow> (real \<Rightarrow> log_line) \<Rightarrow> outcome" where
  "versus_average E today_total avg line =
     (case today_total of
        None \<Rightarrow> throw UnboundLocalError
      | Some t \<Rightarrow>
          if truthy t
          then on_value (py_float E t) (\<lambda>x.
                 if avg = 0 then throw ZeroDivisionError else emit (line (x / avg * 100)))
          else skip)"

definition week_section :: "env \<Rightarrow> json \<Rightarrow> json option \<Rightarrow> outcome" where
  "week_section E week_summaries today_total =
     try_except {KeyError, TypeError} [WeekError]
       (seq (emit WeekBreakdownHeader)
       (on_value (contains ''data'' week_summaries) (\<lambda>has.
          if has
          then seq (emit DailyBreakdownHeader)
                 (on_value (subscript week_summaries ''data'') (\<lambda>data.
                  on_value (iterate data) (\<lambda>days.
                    seq (for_each (day_line E) days)
                      (on_value (map_err (day_total E) days) (\<lambda>daily_totals.
                         if daily_totals \<noteq> []
                         then (let week_avg = sum_list daily_totals / real (length daily_totals)
                               in seq (emit (WeekAverage week_avg))
                                    (versus_average E today_total week_avg TodayVsWeek))
                         else skip)))))
          else skip)))"

subsection \<open>Historical weekday analysis\<close>

text \<open>\<open>[r for r in records if r["weekday"] == today_weekday]\<close>\<close>

fun weekday_filter :: "string \<Rightarrow> json list \<Rightarrow> pyerr + json list" where
  "weekday_filter wd [] = Inr []"
| "weekday_filter wd (r # rs) =
     bindE (subscript r ''weekday'') (\<lambda>w.
     bindE (weekday_filter wd rs) (\<lambda>keep.
       Inr (if w = JStr wd then r # keep else keep)))"

text \<open>\<open>sum(r["total_hours"] for r in records)\<close>, from the accumulator \<open>acc\<close>.\<close>

fun sum_total_hours :: "json list \<Rightarrow> real \<Rightarrow> pyerr + real" where
  "sum_total_hours [] acc = Inr acc"
| "sum_total_hours (r # rs) acc =
     bindE (subscript r ''total_hours'') (\<lambda>h.
     bindE (py_num h) (\<lambda>x. sum_total_hours rs (acc + x)))"

definition previous_line :: "json \<Rightarrow> outcome" where
  "previous_line record =
     on_value (subscript record ''date'') (\<lambda>d.
     on_value (subscript record ''total_hours'') (\<lambda>h.
     on_value (format_2f h) (\<lambda>x. emit (PreviousLine d x))))"

definition historical_section :: "env \<Rightarrow> json \<Rightarrow> json option \<Rightarrow> outcome" where
  "historical_section E records today_total =
     on_value (iterate records) (\<lambda>rs.
     on_value (weekday_filter (today_weekday E) rs) (\<lambda>weekday_records.
       if weekday_records \<noteq> []
       then seq (emit (HistoricalHeader (today_weekday E)))
              (on_value (sum_total_hours weekday_records 0) (\<lambda>total.
                 let avg_hours = total / real (length weekday_records)
                 in seq (emit (HistoricalAverage (today_weekday E) avg_hours))
                   (seq (versus_average E today_total avg_hours
                           (TodayVsHistorical (today_weekday E)))
                   (seq (emit (PreviousHeader (today_weekday E)))
                        (on_value (sorted_by_date_desc E weekday_records) (\<lambda>sorted_records.
                           for_each previous_line (take 4 sorted_records)))))))
       else skip))"

subsection \<open>Weekly trends\<close>

text \<open>\<open>weekly_totals[week].append(h)\<close>, creating the list when the week is new.\<close>

fun week_append :: "(nat \<times> json list) list \<Rightarrow> nat \<Rightarrow> json \<Rightarrow> (nat \<times> json list) list" where
  "week_append [] week h = [(week, [h])]"
| "week_append ((w, hs) # rest) week h =
     (if w = week then (w, hs @ [h]) # rest else (w, hs) # week_append rest week h)"

fun group_by_week ::
  "env \<Rightarrow> json list \<Rightarrow> (nat \<times> json list) list \<Rightarrow> pyerr + (nat \<times> json list) list" where
  "group_by_week E [] weekly_totals = Inr weekly_totals"
| "group_by_week E (record # records) weekly_totals =
     bindE (subscript record ''date'') (\<lambda>d.
     bindE (get_week_number E d) (\<lambda>week.
     bindE (subscript record ''total_hours'') (\<lambda>h.
       group_by_week E records (week_append weekly_totals week h))))"

text \<open>\<open>sum(values)\<close>\<close>

fun sum_values :: "json list \<Rightarrow> real \<Rightarrow> pyerr + real" where
  "sum_values [] acc = Inr acc"
| "sum_values (v # vs) acc = bindE (py_num v) (\<lambda>x. sum_values vs (acc + x))"

definition week_line :: "env \<Rightarrow> (nat \<times> json list) list \<Rightarrow> nat \<Rightarrow> outcome" where
  "week_line E weekly_totals week =
     (case map_of weekly_totals week of
        None \<Rightarrow> throw KeyError
      | Some hs \<Rightarrow>
          on_value (sum_values hs 0) (\<lambda>total.
            emit (WeekLine (if week = current_week E then None else Some week)
                           (total / real (length hs)))))"

definition weekly_section :: "env \<Rightarrow> json \<Rightarrow> outcome" where
  "weekly_section E records =
     on_value (iterate records) (\<lambda>rs.
     on_value (group_by_week E rs []) (\<lambda>weekly_totals.
       seq (emit WeeklyAveragesHeader)
           (for_each (week_line E weekly_totals)
              (take 4 (rev (sort (map fst weekly_totals)))))))"

subsection \<open>Language breakdown\<close>

definition language_line :: "json \<Rightarrow> outcome" where
  "language_line lang =
     on_value (py_get lang ''name'' (JStr ''Unknown'')) (\<lambda>name.
     on_value (py_get lang ''text'' (JStr ''0 hrs'')) (\<lambda>hours_text.
     on_value (py_get lang ''percent'' (JNum 0)) (\<lambda>percent.
       emit (LanguageLine name hours_text percent))))"

text \<open>\<open>v[:5]\<close>: of a list or a string; a dict cannot be sliced (a TypeError or, from
  Python 3.12 on, a KeyError: both are caught where this is used, and the model raises
  TypeError).\<close>

fun first_five :: "json \<Rightarrow> pyerr + json list" where
  "first_five (JArr xs) = Inr (take 5 xs)"
| "first_five (JStr s) = Inr (map (\<lambda>c. JStr [c]) (take 5 s))"
| "first_five _ = Inl TypeError"

definition language_section :: "json \<Rightarrow> outcome" where
  "language_section week_stats =
     try_except {KeyError, TypeError} [LanguageError]
       (on_value (subscript week_stats ''data'') (\<lambda>data.
        on_value (contains ''languages'' data) (\<lambda>has.
          if has
          then seq (emit LanguagesHeader)
                 (on_value (subscript data ''languages'') (\<lambda>langs.
                  on_value (first_five langs) (for_each language_line)))
          else skip)))"

subsection \<open>Current week breakdown from the weekly stats\<close>

text \<open>The body of the loop over the sorted days; its \<open>except Exception\<close> catches
  everything.\<close>

definition stats_day_line :: "env \<Rightarrow> json \<Rightarrow> outcome" where
  "stats_day_line E day =
     try_except UNIV [DayError, DayData day]
       (on_value (subscript day ''date'') (\<lambda>d.
        on_value (iso_weekday E d) (\<lambda>date.
        on_value (contains ''grand_total'' day) (\<lambda>has_total.
          if has_total
          then on_value (subscript day ''grand_total'') (\<lambda>gt.
               on_value (contains ''decimal'' gt) (\<lambda>has_decimal.
                 if has_decimal
                 then on_value (subscript gt ''decimal'') (\<lambda>dec.
                      on_value (py_float E dec) (\<lambda>hours. emit (DayLine date hours)))
                 else emit (DayZeroLine date)))
          else emit (DayZeroLine date)))))"

definition stats_week_section :: "env \<Rightarrow> json \<Rightarrow> outcome" where
  "stats_week_section E week_stats =
     try_except {KeyError, TypeError} [WeekError]
       (seq (emit WeekBreakdownHeader)
       (on_value (contains ''data'' week_stats) (\<lambda>has_data.
          if \<not> has_data then emit NoDailyData
          else
            on_value (subscript week_stats ''data'') (\<lambda>data.
            on_value (contains ''days'' data) (\<lambda>has_days.
              if \<not> has_days then emit NoDailyData
              else
                on_value (subscript data ''days'') (\<lambda>days.
                  if truthy days
                  then on_value (iterate days) (\<lambda>items.
                         case sorted_by_date E items of
                           None \<Rightarrow> throw TypeError
                         | Some sorted_days \<Rightarrow> for_each (stats_day_line E) sorted_days)
                  else emit NoActivityLast7))))))"

subsection \<open>The analyzer\<close>

text \<open>
  \<open>try: ... records = historical_data["daily_records"] except (FileNotFoundError,
  json.JSONDecodeError): records = []\<close>
\<close>

definition load_records :: "file_state \<Rightarrow> pyerr + json" where
  "load_records store =
     (case bindE (read_json store) (\<lambda>historical_data.
             subscript historical_data ''daily_records'') of
        Inl e \<Rightarrow> if e \<in> {FileNotFoundError, JSONDecodeError} then Inr (JArr []) else Inl e
      | Inr records \<Rightarrow> Inr records)"

text \<open>The report sections, run on the loaded records.\<close>

definition report_sections ::
  "env \<Rightarrow> json \<Rightarrow> json \<Rightarrow> json \<Rightarrow> json \<Rightarrow> outcome" where
  "report_sections E today_status week_stats week_summaries records =
     (let today = today_section E today_status; today_total = snd today
      in seq (emit AnalysisHeader)
        (seq (fst today)
        (seq (week_section E week_summaries today_total)
        (seq (historical_section E records today_total)
        (seq (weekly_section E records)
        (seq (language_section week_stats)
             (stats_week_section E week_stats)))))))"

text \<open>
  \<open>get_productivity_analysis\<close> on the three fetched aggregates and the persisted file:
  what is logged, and the exception that leaves the analyzer, if any.
\<close>

definition get_productivity_analysis ::
  "env \<Rightarrow> json \<Rightarrow> json \<Rightarrow> json \<Rightarrow> file_state \<Rightarrow> outcome" where
  "get_productivity_analysis E today_status week_stats week_summaries store =
     on_value (save_daily_stats E today_status store) (\<lambda>written.
     on_value (load_records (Parsed written)) (\<lambda>records.
       report_sections E today_status week_stats week_summaries records))"


section \<open>Notions used to state the properties\<close>

text \<open>
  The runs of a heartbeat list, after the words of the specification: a heartbeat stays
  in the run of its predecessor when the gap between the two is at most the threshold,
  and opens a new run otherwise.
\<close>

fun gap_runs :: "int \<Rightarrow> 'v heartbeat_of list \<Rightarrow> 'v heartbeat_of list list" where
  "gap_runs thr [] = []"
| "gap_runs thr [x] = [[x]]"
| "gap_runs thr (x # y # zs) =
     (if time y - time x \<le> of_int thr
      then (case gap_runs thr (y # zs) of [] \<Rightarrow> [[x]] | r # rs \<Rightarrow> (x # r) # rs)
      else [x] # gap_runs thr (y # zs))"



text \<open>
  The same for fetched heartbeats. \<open>count_of\<close> is what a line count adds, \<open>null\<close> and
  an absent key adding nothing. \<open>run_count seed vs\<close> is the count of a session that
  starts with \<open>seed\<close> and merges heartbeats holding \<open>vs\<close>: the seed plus their sum, and
  for the seed \<open>None\<close> the exception as soon as one of them adds something.
\<close>

definition count_of :: "line_value \<Rightarrow> int" where
  "count_of v = (case v of Lines n \<Rightarrow> n | _ \<Rightarrow> 0)"

definition run_count :: "int option \<Rightarrow> line_value list \<Rightarrow> pyerr + int option" where
  "run_count seed vs =
     (case seed of
        Some m \<Rightarrow> Inr (Some (m + (\<Sum>v\<leftarrow>vs. count_of v)))
      | None \<Rightarrow> if list_all (\<lambda>v. count_of v = 0) vs then Inr None else Inl TypeError)"

definition run_lines ::
  "int option \<Rightarrow> int option \<Rightarrow> py_heartbeat list \<Rightarrow> pyerr + int option line_counts" where
  "run_lines seed_additions seed_deletions hs =
     bindE (run_count seed_additions (map line_additions hs))
       (\<lambda>a. bindE (run_count seed_deletions (map line_deletions hs))
          (\<lambda>d. Inr \<lparr>additions = a, deletions = d\<rparr>))"

text \<open>Every duration stored in the four mappings of a session is at least 0.\<close>

definition nonneg_durations :: "session \<Rightarrow> bool" where
  "nonneg_durations s \<longleftrightarrow>
     (\<forall>k e. files (activities s) k = Some e \<longrightarrow> 0 \<le> file_duration e) \<and>
     (\<forall>k d. projects (activities s) k = Some d \<longrightarrow> 0 \<le> d) \<and>
     (\<forall>k d. languages (activities s) k = Some d \<longrightarrow> 0 \<le> d) \<and>
     (\<forall>k d. categories (activities s) k = Some d \<longrightarrow> 0 \<le> d)"

text \<open>Example data: a heartbeat dict with the keys \<open>time\<close> and \<open>entity\<close> only.\<close>

definition heartbeat_at :: "real \<Rightarrow> string \<Rightarrow> heartbeat" where
  "heartbeat_at t e =
     \<lparr>time = t, entity = Some e, etype = None, project = None, language = None,
      category = None, line_additions = None, line_deletions = None\<rparr>"

text \<open>Example data: a heartbeat with a project and line counts, and no entity.\<close>

definition heartbeat_lines :: "real \<Rightarrow> int \<Rightarrow> int \<Rightarrow> heartbeat" where
  "heartbeat_lines t a d =
     \<lparr>time = t, entity = None, etype = None, project = Some ''p'', language = None,
      category = None, line_additions = Some a, line_deletions = Some d\<rparr>"

text \<open>Example data: a fetched heartbeat with the given values of the line-count keys.\<close>

definition heartbeat_sent :: "real \<Rightarrow> line_value \<Rightarrow> line_value \<Rightarrow> py_heartbeat" where
  "heartbeat_sent t a d =
     \<lparr>time = t, entity = None, etype = None, project = Some ''p'', language = None,
      category = None, line_additions = a, line_deletions = d\<rparr>"

section \<open>Example data for the recorder and the analyzer\<close>

text \<open>
  A Monday, 2024-01-08, in ISO week 2; the library functions are given on the few
  strings the examples use.
\<close>

definition example_env :: env where
  "example_env =
     \<lparr>today_str = ''2024-01-08'', today_weekday = ''Monday'', current_week = 2,
      weekday_name = (\<lambda>s. if s = ''2024-01-07'' then Some ''Sunday''
                           else if s = ''2024-01-08'' then Some ''Monday'' else None),
      week_number = (\<lambda>s. if s = ''2024-01-01'' then Some 1
                          else if s = ''2024-01-08'' then Some 2 else None),
      float_of_string = (\<lambda>s. if s = ''2.00'' then Some 2
                              else if s = ''3.00'' then Some 3
                              else if s = ''4.00'' then Some 4
                              else if s = ''7.00'' then Some 7 else None),
      sorted_by_date_desc = (\<lambda>rs. Inr (rev rs)),
      sorted_by_date = (\<lambda>rs. Some rs),
      scalar_key_text = (\<lambda>v. ''null'')\<rparr>"

text \<open>\<open>{"data": {"grand_total": {"decimal": d}, "categories": [{"name": "Coding",
  "decimal": d}]}}\<close>\<close>

definition example_status :: "string \<Rightarrow> json" where
  "example_status d =
     JObj [(''data'', JObj [(''grand_total'', JObj [(''decimal'', JStr d)]),
                            (''categories'', JArr [JObj [(''name'', JStr ''Coding''),
                                                         (''decimal'', JStr d)]])])]"

text \<open>\<open>{"range": {"date": d}, "grand_total": {"decimal": h}}\<close>\<close>

definition day_entry :: "string \<Rightarrow> string \<Rightarrow> json" where
  "day_entry d h =
     JObj [(''range'', JObj [(''date'', JStr d)]),
           (''grand_total'', JObj [(''decimal'', JStr h)])]"

text \<open>A day entry with no \<open>range\<close>: \<open>{"grand_total": {"decimal": h}}\<close>.\<close>

definition day_without_date :: "string \<Rightarrow> json" where
  "day_without_date h = JObj [(''grand_total'', JObj [(''decimal'', JStr h)])]"

text \<open>A day entry whose grand total has no \<open>decimal\<close>: \<open>{"range": {"date": d},
  "grand_total": {}}\<close>.\<close>

definition day_without_decimal :: "string \<Rightarrow> json" where
  "day_without_decimal d =
     JObj [(''range'', JObj [(''date'', JStr d)]), (''grand_total'', JObj [])]"

text \<open>\<open>{"data": {"languages": [{"name": "Python", "text": "3 hrs", "percent": 100}]}}\<close>\<close>

definition example_week_stats :: json where
  "example_week_stats =
     JObj [(''data'', JObj [(''languages'',
        JArr [JObj [(''name'', JStr ''Python''), (''text'', JStr ''3 hrs''),
                    (''percent'', JNum 100)]])])]"

text \<open>A persisted record with its date, weekday and total, and one that lacks the
  weekday.\<close>

definition stored_record :: "string \<Rightarrow> string \<Rightarrow> real \<Rightarrow> json" where
  "stored_record d wd h =
     JObj [(''date'', JStr d), (''weekday'', JStr wd), (''total_hours'', JNum h)]"

definition record_without_weekday :: "string \<Rightarrow> real \<Rightarrow> json" where
  "record_without_weekday d h = JObj [(''date'', JStr d), (''total_hours'', JNum h)]"

section \<open>Session Reconstructor: basic facts\<close>

lemma update_fields [simp]:
  "start_time (update_activity_duration s h d) = start_time s"
  "end_time (update_activity_duration s h d) = end_time s"
  "duration (update_activity_duration s h d) = duration s"
  "line_changes (update_activity_duration s h d) = line_changes s"
  by (simp_all add: update_activity_duration_def Let_def)

lemma close_fields [simp]:
  "start_time (close_session s h) = start_time s"
  "end_time (close_session s h) = end_time s"
  "duration (close_session s h) = duration s"
  "line_changes (close_session s h) = line_changes s"
  by (simp_all add: close_session_def Let_def)

lemma add_lines_fields [simp]:
  "start_time (add_line_additions h s) = start_time s"
  "end_time (add_line_additions h s) = end_time s"
  "duration (add_line_additions h s) = duration s"
  "activities (add_line_additions h s) = activities s"
  "start_time (add_line_deletions h s) = start_time s"
  "end_time (add_line_deletions h s) = end_time s"
  "duration (add_line_deletions h s) = duration s"
  "activities (add_line_deletions h s) = activities s"
  by (simp_all add: add_line_additions_def add_line_deletions_def split: option.splits)

lemma update_maps:
  "files (activities (update_activity_duration s h d)) =
     (case entity h of
        None \<Rightarrow> files (activities s)
      | Some p \<Rightarrow> add_file_duration (files (activities s)) (normalize_file_path p)
                    (case etype h of None \<Rightarrow> ''unknown'' | Some t \<Rightarrow> t) d)"
  "projects (activities (update_activity_duration s h d)) =
     (case project h of
        None \<Rightarrow> projects (activities s)
      | Some p \<Rightarrow> add_duration (projects (activities s)) p d)"
  "languages (activities (update_activity_duration s h d)) =
     (case language h of
        None \<Rightarrow> languages (activities s)
      | Some p \<Rightarrow> add_duration (languages (activities s)) p d)"
  "categories (activities (update_activity_duration s h d)) =
     (case category h of
        None \<Rightarrow> categories (activities s)
      | Some p \<Rightarrow> add_duration (categories (activities s)) p d)"
  by (simp_all add: update_activity_duration_def Let_def split: option.splits)

lemma loop_body_merge:
  assumes "time current - time prev \<le> of_int thr"
  shows "snd (loop_body fmt thr prev current (cur, durs)) = durs"
    and "start_time (fst (loop_body fmt thr prev current (cur, durs))) = start_time cur"
    and "end_time (fst (loop_body fmt thr prev current (cur, durs))) = time current"
  using assms by (simp_all add: loop_body_def Let_def)

lemma loop_body_split:
  assumes "\<not> time current - time prev \<le> of_int thr"
  shows "snd (loop_body fmt thr prev current (cur, durs)) = durs @ [fmt (close_session cur prev)]"
    and "start_time (fst (loop_body fmt thr prev current (cur, durs))) = time current"
    and "end_time (fst (loop_body fmt thr prev current (cur, durs))) = time current"
  using assms by (simp_all add: loop_body_def Let_def new_session_def)

text \<open>
  What \<open>get_coding_durations\<close> returns is the list of the sessions in seconds, each
  passed through \<open>_format_duration\<close>.
\<close>

lemma loop_body_fmt:
  "loop_body fmt thr prev current (cur, map fmt durs) =
     (fst (loop_body (\<lambda>s. s) thr prev current (cur, durs)),
      map fmt (snd (loop_body (\<lambda>s. s) thr prev current (cur, durs))))"
  by (simp add: loop_body_def Let_def)

lemma merge_loop_fmt:
  "merge_loop fmt thr prev rest (cur, map fmt durs) =
     (fst (merge_loop (\<lambda>s. s) thr prev rest (cur, durs)),
      map fmt (snd (merge_loop (\<lambda>s. s) thr prev rest (cur, durs))))"
proof (induction rest arbitrary: prev cur durs)
  case Nil
  show ?case by simp
next
  case (Cons current rest)
  obtain cur' durs' where st: "loop_body (\<lambda>s. s) thr prev current (cur, durs) = (cur', durs')"
    by (cases "loop_body (\<lambda>s. s) thr prev current (cur, durs)")
  show ?case
    using Cons.IH[of current cur' durs'] by (simp add: loop_body_fmt st)
qed

lemma coding_durations_fmt:
  "coding_durations fmt thr heartbeats = map fmt (raw_sessions thr heartbeats)"
proof (cases "sort_key time heartbeats")
  case Nil
  then show ?thesis by (simp add: raw_sessions_def coding_durations_def)
next
  case (Cons d0 rest)
  from merge_loop_fmt[of fmt thr d0 rest _ "[]"] Cons show ?thesis
    by (simp add: raw_sessions_def coding_durations_def Let_def del: last.simps)
qed

lemma get_coding_durations_raw:
  "get_coding_durations strf thr heartbeats =
     map (format_duration strf) (raw_sessions thr heartbeats)"
  by (simp add: get_coding_durations_def coding_durations_fmt)

subsection \<open>The runs of a heartbeat list\<close>

lemma gap_runs_hd: "\<exists>r rs. gap_runs thr (x # xs) = (x # r) # rs"
  by (induction thr "x # xs" arbitrary: x xs rule: gap_runs.induct) (auto split: list.splits)

lemma gap_runs_concat: "concat (gap_runs thr xs) = xs"
  by (induction thr xs rule: gap_runs.induct) (auto split: list.splits)

lemma gap_runs_nonempty: "[] \<notin> set (gap_runs thr xs)"
  by (induction thr xs rule: gap_runs.induct) (auto split: list.splits)

lemma gap_runs_within:
  "r \<in> set (gap_runs thr xs) \<Longrightarrow> successively (\<lambda>a b. time b - time a \<le> of_int thr) r"
proof (induction thr xs arbitrary: r rule: gap_runs.induct)
  case (3 thr x y zs)
  obtain r0 rs where e: "gap_runs thr (y # zs) = (y # r0) # rs"
    using gap_runs_hd by blast
  show ?case
  proof (cases "time y - time x \<le> of_int thr")
    case True
    with 3 e show ?thesis by auto
  next
    case False
    with 3 e show ?thesis by auto
  qed
qed auto

lemma gap_runs_between:
  "successively (\<lambda>r r'. time (hd r') - time (last r) > of_int thr) (gap_runs thr xs)"
proof (induction thr xs rule: gap_runs.induct)
  case (3 thr x y zs)
  obtain r0 rs where e: "gap_runs thr (y # zs) = (y # r0) # rs"
    using gap_runs_hd by blast
  show ?case
  proof (cases "time y - time x \<le> of_int thr")
    case True
    with 3 e show ?thesis by (auto simp: successively_Cons)
  next
    case False
    with 3 e show ?thesis by (auto simp: successively_Cons)
  qed
qed auto

lemma merge_loop_spans:
  "end_time cur = time prev \<Longrightarrow>
   map (\<lambda>s. (start_time s, end_time s))
     (snd (merge_loop (\<lambda>s. s) thr prev rest (cur, durs)) @
      [fst (merge_loop (\<lambda>s. s) thr prev rest (cur, durs))])
   = map (\<lambda>s. (start_time s, end_time s)) durs @
     (start_time cur, time (last (hd (gap_runs thr (prev # rest))))) #
       map (\<lambda>r. (time (hd r), time (last r))) (tl (gap_runs thr (prev # rest)))"
proof (induction rest arbitrary: prev cur durs)
  case Nil
  then show ?case by simp
next
  case (Cons current rest)
  obtain r0 rs where e: "gap_runs thr (current # rest) = (current # r0) # rs"
    using gap_runs_hd by blast
  obtain cur' durs' where st: "loop_body (\<lambda>s. s) thr prev current (cur, durs) = (cur', durs')"
    by (cases "loop_body (\<lambda>s. s) thr prev current (cur, durs)")
  show ?case
  proof (cases "time current - time prev \<le> of_int thr")
    case True
    from loop_body_merge[OF True, of "\<lambda>s. s" cur durs] st
    have f: "durs' = durs" "start_time cur' = start_time cur" "end_time cur' = time current"
      by simp_all
    from Cons.IH[of cur' current durs'] f st True e show ?thesis
      by simp
  next
    case False
    from loop_body_split[OF False, of "\<lambda>s. s" cur durs] st
    have f: "durs' = durs @ [close_session cur prev]" "start_time cur' = time current"
      "end_time cur' = time current"
      by simp_all
    from Cons.IH[of cur' current durs'] f st False e Cons.prems show ?thesis
      by simp
  qed
qed

lemma raw_sessions_spans:
  "map (\<lambda>s. (start_time s, end_time s)) (raw_sessions thr heartbeats)
   = map (\<lambda>r. (time (hd r), time (last r))) (gap_runs thr (sort_key time heartbeats))"
proof (cases "sort_key time heartbeats")
  case Nil
  then show ?thesis by (simp add: raw_sessions_def coding_durations_def)
next
  case (Cons d0 rest)
  obtain r0 rs where e: "gap_runs thr (d0 # rest) = (d0 # r0) # rs"
    using gap_runs_hd by blast
  from merge_loop_spans[of "update_activity_duration (new_session (time d0) 0 0) d0 0"
      d0 thr rest "[]"]
  show ?thesis using Cons e
    by (simp add: raw_sessions_def coding_durations_def Let_def new_session_def
        del: last.simps)
qed

section \<open>Session Reconstructor: the claims\<close>

text \<open>
  C1. The sorted heartbeats fall into consecutive non-empty runs; two neighbours inside
  a run are at most \<open>merge_threshold\<close> apart (a gap equal to the threshold included),
  the last heartbeat of a run and the first of the next are more than the threshold
  apart, and the sessions produced are exactly these runs, one session per run, from
  the time of the run's first heartbeat to the time of its last. So two consecutive
  heartbeats share a session if and only if their gap is at most the threshold.
\<close>

theorem sessions_are_gap_runs:
  "let data = sort_key time heartbeats; runs = gap_runs thr data
   in concat runs = data \<and> [] \<notin> set runs \<and>
      (\<forall>r \<in> set runs. successively (\<lambda>a b. time b - time a \<le> of_int thr) r) \<and>
      successively (\<lambda>r r'. time (hd r') - time (last r) > of_int thr) runs \<and>
      map (\<lambda>s. (start_time s, end_time s)) (raw_sessions thr heartbeats)
        = map (\<lambda>r. (time (hd r), time (last r))) runs"
  by (simp add: Let_def gap_runs_concat gap_runs_nonempty gap_runs_within gap_runs_between
      raw_sessions_spans)

text \<open>
  At gaps of exactly 300 and of 301 seconds with the threshold 300: the first gap merges,
  the second splits.
\<close>

theorem sessions_are_gap_runs_witness:
  "map (\<lambda>s. (start_time s, end_time s))
     (raw_sessions 300 [heartbeat_at 0 ''a.py'', heartbeat_at 300 ''a.py'',
                        heartbeat_at 601 ''a.py''])
   = [(0, 300), (601, 601)]"
  using sessions_are_gap_runs[where thr = 300 and heartbeats =
      "[heartbeat_at 0 ''a.py'', heartbeat_at 300 ''a.py'', heartbeat_at 601 ''a.py'']"]
  by (simp add: Let_def heartbeat_at_def)

text \<open>
  C2. Heartbeats at 0, 100, 200 and 1000 seconds, all with the entity \<open>a.py\<close> and
  whatever other keys, with the threshold 300: two sessions, the first from 0 to 200
  lasting 200 seconds with 200 seconds on the file \<open>a.py\<close>, the second from 1000 to
  1000 with duration 0 and 0 seconds on \<open>a.py\<close>.
\<close>

theorem scenario_four_heartbeats:
  "map (\<lambda>s. (start_time s, end_time s, duration s,
             map_option file_duration (files (activities s) ''a.py''),
             dom (files (activities s))))
     (raw_sessions 300
        [h0\<lparr>time := 0, entity := Some ''a.py''\<rparr>, h1\<lparr>time := 100, entity := Some ''a.py''\<rparr>,
         h2\<lparr>time := 200, entity := Some ''a.py''\<rparr>, h3\<lparr>time := 1000, entity := Some ''a.py''\<rparr>])
   = [(0, 200, 200, Some 200, {''a.py''}), (1000, 1000, 0, Some 0, {''a.py''})]"
  by (simp add: raw_sessions_def coding_durations_def loop_body_def close_session_def
      update_maps new_session_def add_file_duration_def Let_def
      normalize_file_path_def basename_def)

subsection \<open>Durations are never negative\<close>

lemma add_duration_nonneg:
  "0 \<le> d \<Longrightarrow> \<forall>k v. m k = Some v \<longrightarrow> 0 \<le> v \<Longrightarrow> add_duration m k' d k = Some v \<Longrightarrow> 0 \<le> v"
  by (auto simp: add_duration_def split: option.splits if_splits)

lemma add_file_duration_nonneg:
  "0 \<le> d \<Longrightarrow> \<forall>k e. m k = Some e \<longrightarrow> 0 \<le> file_duration e \<Longrightarrow>
   add_file_duration m k' ty d k = Some e \<Longrightarrow> 0 \<le> file_duration e"
  by (auto simp: add_file_duration_def split: option.splits if_splits)

lemma update_nonneg:
  assumes "0 \<le> d" "nonneg_durations s"
  shows "nonneg_durations (update_activity_duration s h d)"
proof -
  have f: "\<forall>k e. files (activities (update_activity_duration s h d)) k = Some e
             \<longrightarrow> 0 \<le> file_duration e"
    using assms add_file_duration_nonneg[OF assms(1), of "files (activities s)"]
    unfolding update_maps nonneg_durations_def by (cases "entity h") (simp, fastforce)
  have p: "\<forall>k v. projects (activities (update_activity_duration s h d)) k = Some v \<longrightarrow> 0 \<le> v"
    using assms add_duration_nonneg[OF assms(1), of "projects (activities s)"]
    unfolding update_maps nonneg_durations_def by (cases "project h") (simp, fastforce)
  have l: "\<forall>k v. languages (activities (update_activity_duration s h d)) k = Some v \<longrightarrow> 0 \<le> v"
    using assms add_duration_nonneg[OF assms(1), of "languages (activities s)"]
    unfolding update_maps nonneg_durations_def by (cases "language h") (simp, fastforce)
  have c: "\<forall>k v. categories (activities (update_activity_duration s h d)) k = Some v \<longrightarrow> 0 \<le> v"
    using assms add_duration_nonneg[OF assms(1), of "categories (activities s)"]
    unfolding update_maps nonneg_durations_def by (cases "category h") (simp, fastforce)
  from f p l c show ?thesis unfolding nonneg_durations_def by blast
qed

lemma new_session_nonneg: "nonneg_durations (new_session t a b)"
  by (simp add: nonneg_durations_def new_session_def)

lemma close_nonneg: "nonneg_durations s \<Longrightarrow> nonneg_durations (close_session s h)"
  by (simp add: close_session_def Let_def update_nonneg)

lemma nonneg_cong: "activities s' = activities s \<Longrightarrow> nonneg_durations s' = nonneg_durations s"
  by (simp add: nonneg_durations_def)

lemma loop_body_nonneg:
  assumes "nonneg_durations (fst st)" "\<forall>s \<in> set (snd st). nonneg_durations s"
  shows "nonneg_durations (fst (loop_body (\<lambda>s. s) thr prev current st)) \<and>
         (\<forall>s \<in> set (snd (loop_body (\<lambda>s. s) thr prev current st)). nonneg_durations s)"
proof (cases "time current - time prev \<le> of_int thr")
  case True
  have a: "nonneg_durations ((fst st)\<lparr>end_time := x, duration := y\<rparr>)" for x y
    using assms(1) by (simp add: nonneg_durations_def)
  have "nonneg_durations (add_line_deletions current (add_line_additions current s))
        = nonneg_durations s" for s
    by (rule nonneg_cong) simp
  with True assms a show ?thesis
    by (simp add: loop_body_def Let_def update_nonneg)
next
  case False
  with assms show ?thesis
    by (simp add: loop_body_def Let_def update_nonneg new_session_nonneg close_nonneg)
qed

lemma merge_loop_nonneg:
  "nonneg_durations (fst st) \<Longrightarrow> \<forall>s \<in> set (snd st). nonneg_durations s \<Longrightarrow>
   nonneg_durations (fst (merge_loop (\<lambda>s. s) thr prev rest st)) \<and>
   (\<forall>s \<in> set (snd (merge_loop (\<lambda>s. s) thr prev rest st)). nonneg_durations s)"
proof (induction rest arbitrary: prev st)
  case Nil
  then show ?case by simp
next
  case (Cons current rest)
  from loop_body_nonneg[OF Cons.prems, of thr prev current]
  have a: "nonneg_durations (fst (loop_body (\<lambda>s. s) thr prev current st))"
    and b: "\<forall>s \<in> set (snd (loop_body (\<lambda>s. s) thr prev current st)). nonneg_durations s"
    by simp_all
  from Cons.IH[OF a b, of current] show ?case by simp
qed

lemma raw_sessions_nonneg: "s \<in> set (raw_sessions thr heartbeats) \<Longrightarrow> nonneg_durations s"
proof (cases "sort_key time heartbeats")
  case Nil
  assume "s \<in> set (raw_sessions thr heartbeats)"
  with Nil show ?thesis by (simp add: raw_sessions_def coding_durations_def)
next
  case (Cons d0 rest)
  assume m: "s \<in> set (raw_sessions thr heartbeats)"
  let ?init = "(update_activity_duration (new_session (time d0) 0 0) d0 0, [])"
  have "nonneg_durations (fst ?init)" "\<forall>s \<in> set (snd ?init). nonneg_durations s"
    by (simp_all add: update_nonneg new_session_nonneg)
  from merge_loop_nonneg[OF this, of thr d0 rest] m Cons show ?thesis
    by (auto simp: raw_sessions_def coding_durations_def Let_def close_nonneg
        simp del: last.simps)
qed

text \<open>
  C3. Every duration accumulated in the four mappings of every session produced is at
  least 0, whatever the heartbeats. A computed delta that is zero or negative is never
  added: an iteration that merges with a gap of at most 0 leaves the four mappings as
  they were, and so does the closing step when the time left is at most 0.
\<close>

theorem durations_never_negative:
  "(\<forall>s \<in> set (raw_sessions thr heartbeats). nonneg_durations s) \<and>
   (time current - time prev \<le> of_int thr \<and> time current - time prev \<le> 0 \<longrightarrow>
      activities (fst (loop_body fmt thr prev current (cur, durs))) = activities cur) \<and>
   (end_time cur - time prev \<le> 0 \<longrightarrow> close_session cur prev = cur)"
  using raw_sessions_nonneg
  by (auto simp: loop_body_def Let_def close_session_def)

theorem durations_never_negative_witness:
  "list_all nonneg_durations
     (raw_sessions 300 [heartbeat_at 0 ''a.py'', heartbeat_at 100 ''b.py'',
                        heartbeat_at 1000 ''a.py'']) \<and>
   activities (fst (loop_body (\<lambda>s. s) 300 (heartbeat_at 5 ''a.py'') (heartbeat_at 5 ''b.py'')
                      (new_session 5 0 0, [])))
     = activities (new_session 5 0 0) \<and>
   close_session (new_session 5 0 0) (heartbeat_at 5 ''a.py'') = new_session 5 0 0"
  using durations_never_negative[where thr = 300 and heartbeats =
      "[heartbeat_at 0 ''a.py'', heartbeat_at 100 ''b.py'', heartbeat_at 1000 ''a.py'']"
      and current = "heartbeat_at 5 ''b.py''" and prev = "heartbeat_at 5 ''a.py''"
      and fmt = "\<lambda>s. s" and cur = "new_session 5 0 0" and durs = "[]"]
  by (simp add: list_all_iff heartbeat_at_def new_session_def)

subsection \<open>File keys\<close>











subsection \<open>The closing step\<close>

lemma loop_body_end_time:
  "end_time (fst (loop_body fmt thr prev current st)) = time current"
  by (simp add: loop_body_def Let_def new_session_def)

lemma merge_loop_end_time:
  "end_time (fst st) = time prev \<Longrightarrow>
   end_time (fst (merge_loop fmt thr prev xs st)) = time (last (prev # xs))"
  by (induction xs arbitrary: prev st) (simp_all add: loop_body_end_time)

lemma close_session_id: "end_time s = time prev \<Longrightarrow> close_session s prev = s"
  by (simp add: close_session_def)

lemma nth_last_take: "k \<le> length rest \<Longrightarrow> last (d0 # take k rest) = (d0 # rest) ! k"
proof (cases k)
  case 0
  then show ?thesis by simp
next
  case (Suc n)
  assume le: "k \<le> length rest"
  with Suc have ne: "take k rest \<noteq> []" by auto
  from le Suc have "last (take k rest) = rest ! n"
    using ne by (simp add: last_conv_nth min_def)
  with ne Suc show ?thesis by simp
qed

text \<open>
  C9. Let the sorted heartbeats be \<open>d0 # rest\<close>. After any number \<open>k\<close> of iterations
  of the loop, the current session ends at the time of heartbeat \<open>k\<close>, the last one
  merged into it. Every closing step works on such a state with \<open>prev\<close> that
  heartbeat (inside iteration \<open>k + 1\<close> when the gap is over the threshold, and after the
  loop with \<open>k = length rest\<close>), so the time left that it computes is exactly 0 and it
  returns the session unchanged: no duration is added at closing.
\<close>

theorem closing_adds_nothing:
  assumes "sort_key time heartbeats = d0 # rest" and "k \<le> length rest"
  shows "let st = merge_loop fmt thr d0 (take k rest)
                    (update_activity_duration (new_session (time d0) 0 0) d0 0, [])
         in end_time (fst st) = time ((d0 # rest) ! k) \<and>
            end_time (fst st) - time ((d0 # rest) ! k) = 0 \<and>
            close_session (fst st) ((d0 # rest) ! k) = fst st"
proof -
  have "end_time (fst (merge_loop fmt thr d0 (take k rest)
          (update_activity_duration (new_session (time d0) 0 0) d0 0, [])))
        = time (last (d0 # take k rest))"
    by (rule merge_loop_end_time) (simp add: new_session_def)
  with assms(2) show ?thesis
    by (simp add: nth_last_take close_session_id Let_def del: last.simps)
qed

theorem closing_adds_nothing_witness:
  "end_time (fst (merge_loop (\<lambda>s. s) 300 (heartbeat_at 0 ''a.py'')
                    (take 2 [heartbeat_at 100 ''b.py'', heartbeat_at 1000 ''a.py''])
                    (update_activity_duration (new_session (time (heartbeat_at 0 ''a.py'')) 0 0)
                       (heartbeat_at 0 ''a.py'') 0, []))) = 1000 \<and>
   close_session
     (fst (merge_loop (\<lambda>s. s) 300 (heartbeat_at 0 ''a.py'')
             (take 2 [heartbeat_at 100 ''b.py'', heartbeat_at 1000 ''a.py''])
             (update_activity_duration (new_session (time (heartbeat_at 0 ''a.py'')) 0 0)
                (heartbeat_at 0 ''a.py'') 0, [])))
     (heartbeat_at 1000 ''a.py'')
   = fst (merge_loop (\<lambda>s. s) 300 (heartbeat_at 0 ''a.py'')
             (take 2 [heartbeat_at 100 ''b.py'', heartbeat_at 1000 ''a.py''])
             (update_activity_duration (new_session (time (heartbeat_at 0 ''a.py'')) 0 0)
                (heartbeat_at 0 ''a.py'') 0, []))"
proof -
  have s: "sort_key time [heartbeat_at 1000 ''a.py'', heartbeat_at 0 ''a.py'',
                          heartbeat_at 100 ''b.py'']
           = heartbeat_at 0 ''a.py'' # [heartbeat_at 100 ''b.py'', heartbeat_at 1000 ''a.py'']"
    by (simp add: heartbeat_at_def)
  have k: "(2::nat) \<le> length [heartbeat_at 100 ''b.py'', heartbeat_at 1000 ''a.py'']"
    by simp
  have n: "(heartbeat_at 0 ''a.py'' # [heartbeat_at 100 ''b.py'', heartbeat_at 1000 ''a.py'']) ! 2
           = heartbeat_at 1000 ''a.py''"
    by simp
  have t: "time (heartbeat_at 1000 ''a.py'') = 1000"
    by (simp add: heartbeat_at_def)
  from closing_adds_nothing[OF s k, where fmt = "\<lambda>s. s" and thr = 300] show ?thesis
    unfolding Let_def n t by blast
qed

subsection \<open>Line changes\<close>








text \<open>
  Heartbeats with 5, 7 and 11 additions at 0, 100 and 1000 seconds: the first session
  counts 7 (not 5 + 7), the second counts its starting heartbeat's 11.
\<close>

lemma line_changes_example:
  "map line_changes
     (raw_sessions 300 [heartbeat_lines 0 5 1, heartbeat_lines 100 7 2, heartbeat_lines 1000 11 3])
   = [\<lparr>additions = 7, deletions = 2\<rparr>, \<lparr>additions = 11, deletions = 3\<rparr>]"
  by (simp add: raw_sessions_def coding_durations_def loop_body_def close_session_def
      new_session_def add_line_additions_def add_line_deletions_def Let_def
      heartbeat_lines_def)

section \<open>Daily Stats Recorder and Productivity Analyzer: the claims\<close>

lemmas outcome_defs = skip_def emit_def throw_def seq_def on_value_def try_except_def


lemma bindE_simps [simp]:
  "bindE (Inl e) f = Inl e"
  "bindE (Inr v) f = f v"
  by (simp_all add: bindE_def)

lemma bindE_Inr: "bindE x f = Inr y \<longleftrightarrow> (\<exists>v. x = Inr v \<and> f v = Inr y)"
  by (cases x) simp_all

lemma build_daily_stats_date:
  "build_daily_stats E today_status = Inr ds \<Longrightarrow> subscript ds ''date'' = Inr (JStr (today_str E))"
  by (auto simp: build_daily_stats_def bindE_Inr)

lemma find_today_absent:
  "\<forall>r \<in> set records. \<exists>d. subscript r ''date'' = Inr d \<Longrightarrow>
   Inr (JStr today) \<notin> set (map (\<lambda>r. subscript r ''date'') records) \<Longrightarrow>
   find_today today records i = Inr None"
  by (induction records arbitrary: i) auto

lemma find_today_present:
  "\<forall>r \<in> set records. \<exists>d. subscript r ''date'' = Inr d \<Longrightarrow>
   Inr (JStr today) \<in> set (map (\<lambda>r. subscript r ''date'') records) \<Longrightarrow>
   \<exists>j < length records. find_today today records i = Inr (Some (i + j)) \<and>
      subscript (records ! j) ''date'' = Inr (JStr today)"
proof (induction records arbitrary: i)
  case Nil
  then show ?case by simp
next
  case (Cons r rs)
  from Cons.prems(1) obtain d where d: "subscript r ''date'' = Inr d" by auto
  show ?case
  proof (cases "d = JStr today")
    case True
    with d show ?thesis by (intro exI[of _ 0]) simp
  next
    case False
    with d Cons.prems have "Inr (JStr today) \<in> set (map (\<lambda>r. subscript r ''date'') rs)"
      by auto
    with Cons.IH[of "Suc i"] Cons.prems(1)
    obtain j where "j < length rs" "find_today today rs (Suc i) = Inr (Some (Suc i + j))"
      "subscript (rs ! j) ''date'' = Inr (JStr today)"
      by auto
    with d False show ?thesis by (intro exI[of _ "Suc j"]) simp
  qed
qed

lemma dates_after_replace:
  assumes "j < length records" "subscript (records ! j) ''date'' = subscript ds ''date''"
  shows "map (\<lambda>r. subscript r ''date'') (records[j := ds]) = map (\<lambda>r. subscript r ''date'') records"
  using assms by (simp add: map_update list_eq_iff_nth_eq nth_list_update)

text \<open>
  C5. Starting from a collection in which every record has a date and no two records
  have the same date, \<open>save_daily_stats\<close> writes a collection with the same property.
  When a record of today's date is there, the new record takes its place and the
  length is unchanged; otherwise the new record is appended.
\<close>

theorem upsert_keeps_dates_unique:
  assumes "build_daily_stats E today_status = Inr ds"
    and "\<forall>r \<in> set records. \<exists>d. subscript r ''date'' = Inr d"
    and "distinct (map (\<lambda>r. subscript r ''date'') records)"
  shows "\<exists>records'.
     save_daily_stats E today_status (Parsed (JObj [(''daily_records'', JArr records)]))
       = Inr (JObj [(''daily_records'', JArr records')]) \<and>
     distinct (map (\<lambda>r. subscript r ''date'') records') \<and>
     (if Inr (JStr (today_str E)) \<in> set (map (\<lambda>r. subscript r ''date'') records)
      then length records' = length records \<and>
           (\<exists>i < length records.
              subscript (records ! i) ''date'' = Inr (JStr (today_str E)) \<and>
              records' = records[i := ds])
      else records' = records @ [ds])"
proof -
  let ?today = "today_str E"
  let ?dates = "map (\<lambda>r. subscript r ''date'') records"
  have dd: "subscript ds ''date'' = Inr (JStr ?today)"
    using assms(1) by (rule build_daily_stats_date)
  have save: "save_daily_stats E today_status (Parsed (JObj [(''daily_records'', JArr records)]))
        = bindE (upsert_list ?today ds records)
            (\<lambda>records'. Inr (JObj [(''daily_records'', JArr records')]))"
    using assms(1)
    by (simp add: save_daily_stats_def load_all_stats_def upsert_record_def)
  show ?thesis
  proof (cases "Inr (JStr ?today) \<in> set ?dates")
    case True
    from find_today_present[OF assms(2) True, of 0]
    obtain j where j: "j < length records" "find_today ?today records 0 = Inr (Some j)"
      "subscript (records ! j) ''date'' = Inr (JStr ?today)"
      by auto
    have "map (\<lambda>r. subscript r ''date'') (records[j := ds]) = ?dates"
      using j dd by (intro dates_after_replace) simp_all
    with assms(3) j True show ?thesis
      by (intro exI[of _ "records[j := ds]"]) (auto simp: save upsert_list_def)
  next
    case False
    from find_today_absent[OF assms(2) False, of 0]
    have "find_today ?today records 0 = Inr None" .
    with assms(3) False dd show ?thesis
      by (intro exI[of _ "records @ [ds]"]) (auto simp: save upsert_list_def)
  qed
qed

text \<open>
  The collection \<open>[{"date": "2024-01-01", "total_hours": 5, "weekday": "Monday"}]\<close> and a
  new total of 7 hours on 2024-01-01: one record, with 7 hours.
\<close>

theorem upsert_keeps_dates_unique_witness:
  "save_daily_stats (example_env\<lparr>today_str := ''2024-01-01''\<rparr>) (example_status ''7.00'')
     (Parsed (JObj [(''daily_records'', JArr [stored_record ''2024-01-01'' ''Monday'' 5])]))
   = Inr (JObj [(''daily_records'',
        JArr [JObj [(''date'', JStr ''2024-01-01''), (''weekday'', JStr ''Monday''),
                    (''total_hours'', JNum 7),
                    (''categories'', JObj [(''Coding'', JStr ''7.00'')]),
                    (''languages'', JObj [])]])])"
proof -
  let ?E = "example_env\<lparr>today_str := ''2024-01-01''\<rparr>"
  let ?ds = "JObj [(''date'', JStr ''2024-01-01''), (''weekday'', JStr ''Monday''),
                    (''total_hours'', JNum 7),
                    (''categories'', JObj [(''Coding'', JStr ''7.00'')]),
                    (''languages'', JObj [])]"
  let ?records = "[stored_record ''2024-01-01'' ''Monday'' 5]"
  have b: "build_daily_stats ?E (example_status ''7.00'') = Inr ?ds"
    by (simp add: build_daily_stats_def example_env_def example_status_def)
  have w: "\<forall>r \<in> set ?records. \<exists>d. subscript r ''date'' = Inr d"
    by (simp add: stored_record_def)
  have d: "distinct (map (\<lambda>r. subscript r ''date'') ?records)"
    by simp
  have t: "Inr (JStr (today_str ?E)) \<in> set (map (\<lambda>r. subscript r ''date'') ?records)"
    by (simp add: stored_record_def)
  from upsert_keeps_dates_unique[OF b w d] t show ?thesis
    by auto
qed

text \<open>
  A store file that is absent, or whose text is not JSON, is read as the empty
  collection \<open>{"daily_records": []}\<close> by the recorder and as the empty list of records by
  the analyzer, with no exception: both then behave as on a file that holds the empty
  collection.
\<close>

lemma missing_or_unparsable_store_is_empty:
  "load_all_stats Missing = Inr (JObj [(''daily_records'', JArr [])]) \<and>
   load_all_stats Unparsable = Inr (JObj [(''daily_records'', JArr [])]) \<and>
   load_records Missing = Inr (JArr []) \<and>
   load_records Unparsable = Inr (JArr []) \<and>
   save_daily_stats E today_status Missing =
     bindE (build_daily_stats E today_status)
       (\<lambda>daily_stats. Inr (JObj [(''daily_records'', JArr [daily_stats])])) \<and>
   save_daily_stats E today_status Unparsable = save_daily_stats E today_status Missing \<and>
   save_daily_stats E today_status (Parsed (JObj [(''daily_records'', JArr [])]))
     = save_daily_stats E today_status Missing \<and>
   get_productivity_analysis E today_status week_stats week_summaries Missing =
     get_productivity_analysis E today_status week_stats week_summaries
       (Parsed (JObj [(''daily_records'', JArr [])])) \<and>
   get_productivity_analysis E today_status week_stats week_summaries Unparsable =
     get_productivity_analysis E today_status week_stats week_summaries
       (Parsed (JObj [(''daily_records'', JArr [])]))"
proof -
  have l: "load_all_stats Missing = Inr (JObj [(''daily_records'', JArr [])])"
    "load_all_stats Unparsable = Inr (JObj [(''daily_records'', JArr [])])"
    "load_all_stats (Parsed (JObj [(''daily_records'', JArr [])]))
       = Inr (JObj [(''daily_records'', JArr [])])"
    by (simp_all add: load_all_stats_def)
  have r: "load_records Missing = Inr (JArr [])" "load_records Unparsable = Inr (JArr [])"
    by (simp_all add: load_records_def)
  have s: "save_daily_stats E today_status st =
     bindE (build_daily_stats E today_status)
       (\<lambda>daily_stats. Inr (JObj [(''daily_records'', JArr [daily_stats])]))"
    if "load_all_stats st = Inr (JObj [(''daily_records'', JArr [])])" for st
    using that
    by (cases "build_daily_stats E today_status")
       (simp_all add: save_daily_stats_def upsert_record_def upsert_list_def)
  from l r s[OF l(1)] s[OF l(2)] s[OF l(3)] show ?thesis
    by (simp add: get_productivity_analysis_def)
qed

text \<open>
  The other failures of reading the store pass both handlers: whatever the live data,
  the recorder raises them once today's record is built, and so does the analyzer's own
  load.
\<close>

lemma other_read_errors_escape:
  "build_daily_stats E today_status = Inr daily_stats \<Longrightarrow>
     save_daily_stats E today_status Undecodable = Inl UnicodeDecodeError \<and>
     save_daily_stats E today_status Unreadable = Inl OSError \<and>
     save_daily_stats E today_status TooDeep = Inl RecursionError"
  "load_records Undecodable = Inl UnicodeDecodeError"
  "load_records Unreadable = Inl OSError"
  "load_records TooDeep = Inl RecursionError"
  by (simp_all add: save_daily_stats_def load_all_stats_def load_records_def)

text \<open>
  C6, where the code departs from the claim. A store file whose bytes are not valid
  text (a corrupted or wrongly encoded file) makes \<open>json.load\<close> raise UnicodeDecodeError,
  which neither \<open>except (FileNotFoundError, json.JSONDecodeError)\<close> catches: with
  well-formed live data the recorder raises it instead of starting from the empty
  collection, and the analyzer, which calls the recorder first, ends with it before
  its first log line.
\<close>

theorem undecodable_store_is_fatal:
  "save_daily_stats example_env (example_status ''3.00'') Undecodable
     = Inl UnicodeDecodeError \<and>
   load_records Undecodable = Inl UnicodeDecodeError \<and>
   get_productivity_analysis example_env (example_status ''3.00'') example_week_stats
     (JObj [(''data'', JArr [day_entry ''2024-01-08'' ''3.00''])]) Undecodable
     = ([], Some UnicodeDecodeError) \<and>
   get_productivity_analysis example_env (example_status ''3.00'') example_week_stats
     (JObj [(''data'', JArr [day_entry ''2024-01-08'' ''3.00''])]) Unparsable
     = ([AnalysisHeader, TodayActivity ''2024-01-08'', TotalTime (JStr ''3.00''),
         ActivityBreakdown, CategoryLine (JStr ''Coding'') (JStr ''3.00''),
         WeekBreakdownHeader, DailyBreakdownHeader, DayLine ''Monday'' 3,
         WeekAverage 3, TodayVsWeek 100,
         HistoricalHeader ''Monday'', HistoricalAverage ''Monday'' 3,
         TodayVsHistorical ''Monday'' 100, PreviousHeader ''Monday'',
         PreviousLine (JStr ''2024-01-08'') 3,
         WeeklyAveragesHeader, WeekLine None 3,
         LanguagesHeader, LanguageLine (JStr ''Python'') (JStr ''3 hrs'') (JNum 100),
         WeekBreakdownHeader, NoDailyData],
        None)"
  by (simp add: get_productivity_analysis_def save_daily_stats_def build_daily_stats_def
      load_all_stats_def upsert_record_def upsert_list_def load_records_def
      report_sections_def today_section_def category_line_def
      week_section_def day_line_def day_total_def versus_average_def
      historical_section_def previous_line_def weekly_section_def week_line_def
      language_section_def language_line_def stats_week_section_def outcome_defs
      example_env_def example_status_def example_week_stats_def day_entry_def Let_def)

text \<open>
  C7, where the code departs from the claim. With a day that has a grand total and no
  \<open>range.date\<close>, the day is left out of the listing and still counted in the average:
  for the totals 2.00 (listed) and 4.00 (skipped) the reported average is 3, not 2.
  With a day whose grand total has no \<open>decimal\<close>, the list comprehension of the
  average raises KeyError: the section logs its error line and reports no average.
\<close>

theorem week_average_ignores_the_skipping:
  "week_section example_env
     (JObj [(''data'', JArr [day_entry ''2024-01-08'' ''2.00'', day_without_date ''4.00''])])
     (Some (JStr ''3.00''))
   = ([WeekBreakdownHeader, DailyBreakdownHeader, DayLine ''Monday'' 2,
       WeekAverage 3, TodayVsWeek 100], None) \<and>
   week_section example_env
     (JObj [(''data'', JArr [day_entry ''2024-01-08'' ''2.00'', day_without_decimal ''2024-01-07''])])
     (Some (JStr ''3.00''))
   = ([WeekBreakdownHeader, DailyBreakdownHeader, DayLine ''Monday'' 2, WeekError], None)"
  by (simp add: week_section_def day_line_def day_total_def versus_average_def outcome_defs
      example_env_def day_entry_def day_without_date_def day_without_decimal_def)

text \<open>
  The sections wrapped in \<open>try ... except (KeyError, TypeError)\<close> never let one of
  these two exceptions out.
\<close>

lemma try_except_catches: "snd (try_except caught handler body) \<notin> Some ` caught"
  by (cases "snd body") (auto simp: try_except_def)

lemma guarded_sections_catch:
  "snd (fst (today_section E today_status)) \<notin> {Some KeyError, Some TypeError}"
  "snd (week_section E week_summaries today_total) \<notin> {Some KeyError, Some TypeError}"
  "snd (language_section week_stats) \<notin> {Some KeyError, Some TypeError}"
  "snd (stats_week_section E week_stats) \<notin> {Some KeyError, Some TypeError}"
  using try_except_catches[of "{KeyError, TypeError}"]
  by (auto simp: today_section_def week_section_def language_section_def
      stats_week_section_def split: sum.splits)

text \<open>
  C8, where the code departs from the claim. The historical weekday analysis and the
  weekly trends have no handler. With a persisted record that lacks \<open>weekday\<close>, the
  KeyError of \<open>r["weekday"]\<close> leaves the analyzer after the current week breakdown:
  nothing is logged for the historical section, and the weekly averages, the languages
  and the second week breakdown are never reached.
\<close>

theorem record_without_weekday_aborts_the_report:
  "get_productivity_analysis example_env (example_status ''3.00'') example_week_stats
     (JObj [(''data'', JArr [day_entry ''2024-01-07'' ''2.00'', day_entry ''2024-01-08'' ''3.00''])])
     (Parsed (JObj [(''daily_records'', JArr [record_without_weekday ''2024-01-01'' 5])]))
   = ([AnalysisHeader, TodayActivity ''2024-01-08'', TotalTime (JStr ''3.00''),
       ActivityBreakdown, CategoryLine (JStr ''Coding'') (JStr ''3.00''),
       WeekBreakdownHeader, DailyBreakdownHeader, DayLine ''Sunday'' 2, DayLine ''Monday'' 3,
       WeekAverage (5 / 2), TodayVsWeek 120],
      Some KeyError)"
  by (simp add: get_productivity_analysis_def save_daily_stats_def build_daily_stats_def
      load_all_stats_def upsert_record_def upsert_list_def load_records_def
      report_sections_def today_section_def category_line_def
      week_section_def day_line_def day_total_def versus_average_def
      historical_section_def outcome_defs
      example_env_def example_status_def example_week_stats_def day_entry_def
      record_without_weekday_def Let_def)
end
